theory Spec2Isabelle
  imports Main "HOL-Library.Sublist"
begin

section \<open>The markdown package of ms1963/markdown\<close>

text \<open>
  The repository holds the Go package \<^verbatim>\<open>markdown\<close> twice. The current library
  (\<^verbatim>\<open>src/unnamed/part_000\<close>, the file the repository's tests and example call) builds
  a document from a flavor and a colour flag, and guards every operation against empty
  input. The earlier library (\<^verbatim>\<open>src/unnamed/part_002\<close>) has no guards, and keeps a
  log of the headings it has written for \<^verbatim>\<open>TableOfContents\<close>. Both are embedded
  here: the definitions of the first keep the source's names, those of the second carry
  the suffix \<open>2\<close> where the name is taken.

  A Go string is a sequence of bytes: a \<^typ>\<open>string\<close>. A method with the receiver
  \<^verbatim>\<open>md *Markdown\<close> takes the document as its last argument; a method that returns
  nothing gives the document back, a method that returns a string gives the string with
  the document.
\<close>

subsection \<open>Strings and the library functions the package calls\<close>

abbreviation NL :: char where "NL \<equiv> CHR 0x0A"
abbreviation BS :: char where "BS \<equiv> CHR 0x5C"
abbreviation DQ :: char where "DQ \<equiv> CHR 0x22"
abbreviation BT :: char where "BT \<equiv> CHR 0x60"

text \<open>\<^verbatim>\<open>strings.Repeat(s, count)\<close>, for a count that is not negative.\<close>

definition Repeat :: "string \<Rightarrow> nat \<Rightarrow> string" where
  "Repeat s count = concat (replicate count s)"

text \<open>\<^verbatim>\<open>strings.Join(elems, sep)\<close>.\<close>

fun Join :: "string list \<Rightarrow> string \<Rightarrow> string" where
  "Join [] sep = []"
| "Join [e] sep = e"
| "Join (e # es) sep = e @ sep @ Join es sep"

text \<open>
  \<^verbatim>\<open>strings.ReplaceAll(s, old, new)\<close> for a pattern \<open>old\<close> of one byte, which is
  how the package calls it every time: the occurrences of the byte are replaced from
  left to right, and the text put in is not looked at again.
\<close>

fun ReplaceAll :: "string \<Rightarrow> char \<Rightarrow> string \<Rightarrow> string" where
  "ReplaceAll [] old new = []"
| "ReplaceAll (c # s) old new =
     (if c = old then new @ ReplaceAll s old new else c # ReplaceAll s old new)"

text \<open>The verb \<^verbatim>\<open>%d\<close> of \<^verbatim>\<open>fmt.Sprintf\<close> at a number that is not negative.\<close>

definition digit :: "nat \<Rightarrow> char" where
  "digit d = char_of (48 + d)"

function itoa :: "nat \<Rightarrow> string" where
  "itoa n = (if n < 10 then [digit n] else itoa (n div 10) @ [digit (n mod 10)])"
  by pat_completeness auto
termination
  by (relation "measure id") auto

declare itoa.simps [simp del]

text \<open>
  A Go map is given by its entries: \<^verbatim>\<open>m[k]\<close> is \<open>map_of m k\<close>, and
  \<^verbatim>\<open>len(m) == 0\<close> says that there is no entry.
\<close>

type_synonym 'v gomap = "(string \<times> 'v) list"

subsection \<open>The current library: the document\<close>

record Markdown =
  content :: string
  flavor :: int
  useColor :: bool

definition StandardMarkdown :: int where "StandardMarkdown = 0"
definition GitHubMarkdown :: int where "GitHubMarkdown = 1"
definition JupyterMarkdown :: int where "JupyterMarkdown = 2"

definition New :: "int \<Rightarrow> bool \<Rightarrow> Markdown" where
  "New fl uc = \<lparr>content = [], flavor = fl, useColor = uc\<rparr>"

text \<open>\<^verbatim>\<open>md.content.WriteString(s)\<close>: the builder's text with \<open>s\<close> at its end.\<close>

definition WriteString :: "string \<Rightarrow> Markdown \<Rightarrow> Markdown" where
  "WriteString s md = md\<lparr>content := content md @ s\<rparr>"

definition GetContent :: "Markdown \<Rightarrow> string \<times> Markdown" where
  "GetContent md = (content md, md)"

subsection \<open>The current library: the operations\<close>

definition FrontMatter :: "string gomap \<Rightarrow> Markdown \<Rightarrow> Markdown" where
  "FrontMatter metadata md =
     (let keys = [''title'', ''author'', ''date''];
          md1 = WriteString (''---'' @ [NL]) md;
          md2 = fold (\<lambda>key m.
                  case map_of metadata key of
                    Some v \<Rightarrow> WriteString (key @ '': '' @ [DQ] @ v @ [DQ] @ [NL]) m
                  | None \<Rightarrow> m) keys md1
      in WriteString (''---'' @ [NL, NL]) md2)"

definition Heading :: "int \<Rightarrow> string \<Rightarrow> string \<Rightarrow> string \<Rightarrow> Markdown \<Rightarrow> Markdown" where
  "Heading level text ident attributes md =
     (let level1 = (if level < 1 \<or> level > 6 then 1 else level) in
      if text = [] then md
      else
        let header = Repeat ''#'' (nat level1) @ '' '' @ text;
            header1 = (if ident \<noteq> [] then header @ '' {#'' @ ident @ ''}'' else header);
            header2 = (if attributes \<noteq> [] then header1 @ '' {'' @ attributes @ ''}''
                       else header1)
        in WriteString (header2 @ [NL, NL]) md)"

text \<open>One turn of the \<^verbatim>\<open>switch\<close> of \<^verbatim>\<open>ApplyFormatting\<close>.\<close>

definition format_case :: "string \<Rightarrow> string \<Rightarrow> string" where
  "format_case fmt text =
     (if fmt = ''strikethrough'' then ''~~'' @ text @ ''~~''
      else if fmt = ''bold'' then ''**'' @ text @ ''**''
      else if fmt = ''italic'' then ''_'' @ text @ ''_''
      else if fmt = ''underline'' then ''<u>'' @ text @ ''</u>''
      else if fmt = ''subscript'' then ''<sub>'' @ text @ ''</sub>''
      else if fmt = ''superscript'' then ''<sup>'' @ text @ ''</sup>''
      else if fmt = ''code'' then [BT] @ text @ [BT]
      else text)"

text \<open>
  The loop \<^verbatim>\<open>for i := len(formats) - 1; i >= 0; i--\<close>: the first argument is
  \<open>i + 1\<close>, so the loop ends at \<open>0\<close>.
\<close>

primrec ApplyFormatting_from :: "nat \<Rightarrow> string list \<Rightarrow> string \<Rightarrow> string" where
  "ApplyFormatting_from 0 formats text = text"
| "ApplyFormatting_from (Suc i) formats text =
     ApplyFormatting_from i formats (format_case (formats ! i) text)"

definition ApplyFormatting :: "string \<Rightarrow> string list \<Rightarrow> Markdown \<Rightarrow> string \<times> Markdown" where
  "ApplyFormatting text formats md = (ApplyFormatting_from (length formats) formats text, md)"

definition Paragraph :: "string \<Rightarrow> string list \<Rightarrow> Markdown \<Rightarrow> Markdown" where
  "Paragraph text formats md =
     (if text = [] then md
      else case ApplyFormatting text formats md of
             (formatted, md1) \<Rightarrow> WriteString (formatted @ [NL, NL]) md1)"

definition CodeBlock :: "string \<Rightarrow> string \<Rightarrow> Markdown \<Rightarrow> Markdown" where
  "CodeBlock language code md =
     (if code = [] then md
      else WriteString ([BT, BT, BT] @ language @ [NL] @ code @ [NL] @ [BT, BT, BT] @ [NL, NL]) md)"

definition ReferenceLink :: "string \<Rightarrow> string \<Rightarrow> string \<Rightarrow> Markdown \<Rightarrow> Markdown" where
  "ReferenceLink label text url md =
     (if label = [] \<or> text = [] \<or> url = [] then md
      else WriteString (''['' @ text @ '']('' @ url @ '')'' @ [NL, NL])
             (WriteString (''['' @ label @ '']: '' @ text @ [NL]) md))"

definition Image_md :: "string \<Rightarrow> string \<Rightarrow> Markdown \<Rightarrow> Markdown" where
  "Image_md altText url md =
     (if altText = [] \<or> url = [] then md
      else WriteString (''!['' @ altText @ '']('' @ url @ '')'' @ [NL, NL]) md)"

definition List :: "string list \<Rightarrow> bool \<Rightarrow> Markdown \<Rightarrow> Markdown" where
  "List items isOrdered md =
     (if length items = 0 then md
      else WriteString [NL]
             (fold (\<lambda>(i, item) m.
                      if isOrdered then WriteString (itoa (i + 1) @ ''. '' @ item @ [NL]) m
                      else WriteString (''- '' @ item @ [NL]) m)
                (enumerate 0 items) md))"

definition NestedList :: "string list list \<Rightarrow> bool \<Rightarrow> Markdown \<Rightarrow> Markdown" where
  "NestedList nestedItems isOrdered md =
     (if length nestedItems = 0 then md
      else WriteString [NL]
             (fold (\<lambda>(i, items) m.
                      if isOrdered
                      then fold (\<lambda>item. WriteString (itoa (i + 1) @ ''. '' @ item @ [NL])) items m
                      else fold (\<lambda>(j, item).
                                   if j = 0 then WriteString (''- '' @ item @ [NL])
                                   else WriteString (''  - '' @ item @ [NL]))
                             (enumerate 0 items) m)
                (enumerate 0 nestedItems) md))"

text \<open>One turn of the \<^verbatim>\<open>switch\<close> that builds the alignment line of \<^verbatim>\<open>Table\<close>.\<close>

definition alignment_case :: "string \<Rightarrow> string \<Rightarrow> string" where
  "alignment_case a alignment =
     (if a = ''left'' then alignment @ '':---|''
      else if a = ''center'' then alignment @ '':---:|''
      else if a = ''right'' then alignment @ ''---:|''
      else alignment @ ''---|'')"

definition Table :: "string list \<Rightarrow> string list list \<Rightarrow> string list \<Rightarrow> Markdown \<Rightarrow> Markdown" where
  "Table headers rows align md =
     (if length headers = 0 \<or> length rows = 0 then md
      else
        let headerLine = ''| '' @ Join headers '' | '' @ '' |'' @ [NL];
            alignment = fold alignment_case align ''|'';
            md1 = WriteString (headerLine @ alignment @ [NL]) md;
            md2 = fold (\<lambda>row m.
                    if length row \<noteq> length headers then m
                    else WriteString (''| '' @ Join row '' | '' @ '' |'' @ [NL]) m) rows md1
        in WriteString [NL] md2)"

definition Blockquote :: "string \<Rightarrow> Markdown \<Rightarrow> Markdown" where
  "Blockquote text md =
     (if text = [] then md else WriteString (''> '' @ text @ [NL, NL]) md)"

definition HorizontalRule :: "Markdown \<Rightarrow> Markdown" where
  "HorizontalRule md = WriteString (''---'' @ [NL, NL]) md"

definition Footnote :: "string \<Rightarrow> string \<Rightarrow> Markdown \<Rightarrow> Markdown" where
  "Footnote label text md =
     (if label = [] \<or> text = [] then md
      else WriteString (''['' @ label @ '']: '' @ text @ '' [Return to text](#fn-'' @ label
                          @ ''-back)'' @ [NL]) md)"

definition MultiLineFootnote :: "string \<Rightarrow> string list \<Rightarrow> Markdown \<Rightarrow> Markdown" where
  "MultiLineFootnote label lines md =
     (if label = [] \<or> length lines = 0 then md
      else
        let md1 = WriteString (''['' @ label @ '']: '') md;
            md2 = fold (\<lambda>line. WriteString (line @ [NL])) lines md1
        in WriteString (''[Return to text](#fn-'' @ label @ ''-back)'' @ [NL, NL]) md2)"

record OrderedDefinition =
  term_of :: string
  definitions_of :: "string list"

text \<open>\<^verbatim>\<open>definitions[k]\<close> for a map of slices: a key that is missing gives the nil slice.\<close>

definition index_slices :: "string list gomap \<Rightarrow> string \<Rightarrow> string list" where
  "index_slices definitions k = (case map_of definitions k of Some ds \<Rightarrow> ds | None \<Rightarrow> [])"

definition DefinitionList :: "string list gomap \<Rightarrow> Markdown \<Rightarrow> Markdown" where
  "DefinitionList definitions md =
     (if length definitions = 0 then md
      else
        let orderedDefs =
              [\<lparr>term_of = ''Term 1'', definitions_of = index_slices definitions ''Term 1''\<rparr>,
               \<lparr>term_of = ''Term 2'', definitions_of = index_slices definitions ''Term 2''\<rparr>]
        in fold (\<lambda>d m.
                   if term_of d = [] \<or> length (definitions_of d) = 0 then m
                   else
                     let m1 = WriteString (term_of d @ [NL]) m;
                         m2 = fold (\<lambda>definition. WriteString ('': '' @ definition @ [NL]))
                                (definitions_of d) m1
                     in WriteString [NL] m2)
             orderedDefs md)"

text \<open>
  \<^verbatim>\<open>specialChars\<close> of \<^verbatim>\<open>Escape\<close>: the raw string literal of two backslashes,
  followed by the interpreted literal of the backquote and the thirteen other characters.
\<close>

definition specialChars :: string where
  "specialChars = [BS, BS] @ [BT] @ ''*_{[]}()#+-.!''"

definition Escape :: "string \<Rightarrow> Markdown \<Rightarrow> string \<times> Markdown" where
  "Escape text md = (fold (\<lambda>char t. ReplaceAll t char ([BS] @ [char])) specialChars text, md)"

definition CustomDiv :: "string \<Rightarrow> string \<Rightarrow> Markdown \<Rightarrow> Markdown" where
  "CustomDiv className body md =
     (if body = [] then md
      else WriteString (''::: '' @ className @ [NL] @ body @ [NL] @ '':::'' @ [NL, NL]) md)"

definition TaskList :: "string list \<Rightarrow> bool list \<Rightarrow> Markdown \<Rightarrow> Markdown" where
  "TaskList items checked md =
     (if length items = 0 then md
      else WriteString [NL]
             (fold (\<lambda>(i, item) m.
                      if item = [] then m
                      else
                        let check = (if i < length checked \<and> checked ! i then ''x'' else '' '')
                        in WriteString (''- ['' @ check @ ''] '' @ item @ [NL]) m)
                (enumerate 0 items) md))"

definition MermaidDiagram :: "string \<Rightarrow> Markdown \<Rightarrow> Markdown" where
  "MermaidDiagram diagram md =
     (if diagram = [] then md
      else WriteString ([BT, BT, BT] @ ''mermaid'' @ [NL] @ diagram @ [NL] @ [BT, BT, BT]
                          @ [NL, NL]) md)"

definition MathBlock :: "string \<Rightarrow> Markdown \<Rightarrow> Markdown" where
  "MathBlock equation md =
     (if equation = [] then md
      else WriteString (''$$'' @ [NL] @ equation @ [NL] @ ''$$'' @ [NL, NL]) md)"

definition Underline :: "string \<Rightarrow> Markdown \<Rightarrow> string \<times> Markdown" where
  "Underline text md = (''<u>'' @ text @ ''</u>'', md)"

definition Subscript :: "string \<Rightarrow> Markdown \<Rightarrow> string \<times> Markdown" where
  "Subscript text md = (''<sub>'' @ text @ ''</sub>'', md)"

definition Superscript :: "string \<Rightarrow> Markdown \<Rightarrow> string \<times> Markdown" where
  "Superscript text md = (''<sup>'' @ text @ ''</sup>'', md)"

definition ColorText :: "string \<Rightarrow> string \<Rightarrow> Markdown \<Rightarrow> string \<times> Markdown" where
  "ColorText text color md =
     (if useColor md
      then (''<span style='' @ [DQ] @ ''color:'' @ color @ [DQ] @ ''>'' @ text @ ''</span>'', md)
      else (text, md))"

definition ToHTML :: "Markdown \<Rightarrow> string \<times> Markdown" where
  "ToHTML md =
     (case GetContent md of
        (c, md1) \<Rightarrow> (''<html>'' @ ReplaceAll c NL ''<br>'' @ ''</html>'', md1))"

subsection \<open>The earlier library: the document and its heading log\<close>

record Heading =
  Text :: string
  ID :: string

record Markdown2 =
  content2 :: string
  headings :: "Heading list"

definition New2 :: Markdown2 where
  "New2 = \<lparr>content2 = [], headings = []\<rparr>"

definition WriteString2 :: "string \<Rightarrow> Markdown2 \<Rightarrow> Markdown2" where
  "WriteString2 s md = md\<lparr>content2 := content2 md @ s\<rparr>"

definition GetContent2 :: "Markdown2 \<Rightarrow> string \<times> Markdown2" where
  "GetContent2 md = (content2 md, md)"

text \<open>The run-time panic of an index out of range.\<close>

datatype error = IndexOutOfRange

subsection \<open>The earlier library: the operations\<close>

text \<open>
  \<^verbatim>\<open>for key, value := range metadata\<close> visits the entries of the map in an order
  that Go leaves open: the entries are taken in the order in which the loop visits them.
\<close>

definition FrontMatter2 :: "string gomap \<Rightarrow> Markdown2 \<Rightarrow> Markdown2" where
  "FrontMatter2 metadata md =
     (let md1 = WriteString2 (''---'' @ [NL]) md;
          md2 = fold (\<lambda>(key, v). WriteString2 (key @ '': '' @ [DQ] @ v @ [DQ] @ [NL]))
                  metadata md1
      in WriteString2 (''---'' @ [NL, NL]) md2)"

definition Heading2 :: "int \<Rightarrow> string \<Rightarrow> string \<Rightarrow> Markdown2 \<Rightarrow> Markdown2" where
  "Heading2 level text ident md =
     (let level1 = (if level < 1 \<or> level > 6 then 1 else level);
          headingText = Repeat ''#'' (nat level1) @ '' '' @ text;
          md1 = WriteString2 headingText md;
          md2 = (if ident \<noteq> [] then WriteString2 ('' {#'' @ ident @ ''}'') md1 else md1);
          md3 = WriteString2 [NL, NL] md2
      in md3\<lparr>headings := headings md3 @ [\<lparr>Text = headingText, ID = ident\<rparr>]\<rparr>)"

definition TableOfContents :: "Markdown2 \<Rightarrow> Markdown2" where
  "TableOfContents md =
     (let md1 = WriteString2 (''## Table of Contents'' @ [NL]) md;
          md2 = fold (\<lambda>heading m.
                  if ID heading \<noteq> []
                  then WriteString2 (''- '' @ Text heading @ '' {#'' @ ID heading @ ''}'' @ [NL]) m
                  else WriteString2 (''- '' @ Text heading @ [NL]) m)
                  (headings md) md1
      in WriteString2 [NL] md2)"

definition Bold :: "string \<Rightarrow> Markdown2 \<Rightarrow> string \<times> Markdown2" where
  "Bold text md = (''**'' @ text @ ''**'', md)"

definition Italic :: "string \<Rightarrow> Markdown2 \<Rightarrow> string \<times> Markdown2" where
  "Italic text md = (''_'' @ text @ ''_'', md)"

definition Strikethrough :: "string \<Rightarrow> Markdown2 \<Rightarrow> string \<times> Markdown2" where
  "Strikethrough text md = (''~~'' @ text @ ''~~'', md)"

definition InlineCode :: "string \<Rightarrow> Markdown2 \<Rightarrow> string \<times> Markdown2" where
  "InlineCode text md = ([BT] @ text @ [BT], md)"

fun applyFormatting :: "string \<Rightarrow> string list \<Rightarrow> Markdown2 \<Rightarrow> string \<times> Markdown2" where
  "applyFormatting text [] md = (text, md)"
| "applyFormatting text (fmt # formats) md =
     (case (if fmt = ''bold'' then Bold text md
            else if fmt = ''italic'' then Italic text md
            else if fmt = ''strikethrough'' then Strikethrough text md
            else if fmt = ''code'' then InlineCode text md
            else (text, md)) of
        (text1, md1) \<Rightarrow> applyFormatting text1 formats md1)"

definition Paragraph2 :: "string \<Rightarrow> string list \<Rightarrow> Markdown2 \<Rightarrow> Markdown2" where
  "Paragraph2 text formats md =
     (case applyFormatting text formats md of
        (formatted, md1) \<Rightarrow> WriteString2 (formatted @ [NL, NL]) md1)"

definition MathBlock2 :: "string \<Rightarrow> Markdown2 \<Rightarrow> Markdown2" where
  "MathBlock2 equation md = WriteString2 (''$$'' @ [NL] @ equation @ [NL] @ ''$$'' @ [NL, NL]) md"

definition MermaidDiagram2 :: "string \<Rightarrow> Markdown2 \<Rightarrow> Markdown2" where
  "MermaidDiagram2 diagram md =
     WriteString2 ([BT, BT, BT] @ ''mermaid'' @ [NL] @ diagram @ [NL] @ [BT, BT, BT] @ [NL, NL]) md"

definition CustomDiv2 :: "string \<Rightarrow> string \<Rightarrow> Markdown2 \<Rightarrow> Markdown2" where
  "CustomDiv2 className body md =
     WriteString2 (''::: '' @ className @ [NL] @ body @ [NL] @ '':::'' @ [NL, NL]) md"

definition Emoji :: "string \<Rightarrow> Markdown2 \<Rightarrow> Markdown2" where
  "Emoji emoji md = WriteString2 ('':'' @ emoji @ '':'' @ [NL, NL]) md"

definition Link :: "string \<Rightarrow> string \<Rightarrow> Markdown2 \<Rightarrow> string \<times> Markdown2" where
  "Link text url md = (''['' @ text @ '']('' @ url @ '')'', md)"

definition AutoLink :: "string \<Rightarrow> Markdown2 \<Rightarrow> Markdown2" where
  "AutoLink url md = WriteString2 (''<'' @ url @ ''>'' @ [NL, NL]) md"

definition Image2 :: "string \<Rightarrow> string \<Rightarrow> Markdown2 \<Rightarrow> Markdown2" where
  "Image2 altText url md = WriteString2 (''!['' @ altText @ '']('' @ url @ '')'' @ [NL, NL]) md"

definition CodeBlock2 :: "string \<Rightarrow> string \<Rightarrow> Markdown2 \<Rightarrow> Markdown2" where
  "CodeBlock2 language code md =
     WriteString2 ([BT, BT, BT] @ language @ [NL] @ code @ [NL] @ [BT, BT, BT] @ [NL, NL]) md"

definition UnorderedList :: "string list \<Rightarrow> Markdown2 \<Rightarrow> Markdown2" where
  "UnorderedList items md =
     WriteString2 [NL] (fold (\<lambda>item. WriteString2 (''- '' @ item @ [NL])) items md)"

definition OrderedList :: "string list \<Rightarrow> Markdown2 \<Rightarrow> Markdown2" where
  "OrderedList items md =
     WriteString2 [NL]
       (fold (\<lambda>(i, item). WriteString2 (itoa (i + 1) @ ''. '' @ item @ [NL]))
          (enumerate 0 items) md)"

definition NestedList2 :: "string list list \<Rightarrow> bool \<Rightarrow> Markdown2 \<Rightarrow> Markdown2" where
  "NestedList2 lists0 isOrdered md =
     WriteString2 [NL]
       (fold (\<lambda>list m.
                fold (\<lambda>(level, item).
                        let indent = Repeat ''  '' level in
                        if isOrdered
                        then WriteString2 (indent @ itoa (level + 1) @ ''. '' @ item @ [NL])
                        else WriteString2 (indent @ ''- '' @ item @ [NL]))
                  (enumerate 0 list) m)
          lists0 md)"

text \<open>
  The loop of \<^verbatim>\<open>TaskList\<close> reads \<^verbatim>\<open>checked[i]\<close> with no check of \<open>i\<close>: at
  an index beyond \<open>checked\<close> the method panics, and the lines written before stay in the
  builder.
\<close>

fun TaskList2_loop :: "(nat \<times> string) list \<Rightarrow> bool list \<Rightarrow> Markdown2 \<Rightarrow> error option \<times> Markdown2" where
  "TaskList2_loop [] checked md = (None, md)"
| "TaskList2_loop ((i, item) # rest) checked md =
     (if i < length checked
      then
        let status = (if checked ! i then ''x'' else '' '')
        in TaskList2_loop rest checked (WriteString2 (''- ['' @ status @ ''] '' @ item @ [NL]) md)
      else (Some IndexOutOfRange, md))"

definition TaskList2 :: "string list \<Rightarrow> bool list \<Rightarrow> Markdown2 \<Rightarrow> error option \<times> Markdown2" where
  "TaskList2 items checked md =
     (case TaskList2_loop (enumerate 0 items) checked md of
        (None, md1) \<Rightarrow> (None, WriteString2 [NL] md1)
      | (Some e, md1) \<Rightarrow> (Some e, md1))"

definition alignment_case2 :: "string \<Rightarrow> string \<Rightarrow> string" where
  "alignment_case2 alignType alignment =
     (if alignType = ''left'' then alignment @ ''|:---''
      else if alignType = ''center'' then alignment @ ''|:---:''
      else if alignType = ''right'' then alignment @ ''|---:''
      else alignment @ ''|---'')"

definition Table2 :: "string list \<Rightarrow> string list list \<Rightarrow> string list \<Rightarrow> Markdown2 \<Rightarrow> Markdown2" where
  "Table2 headers rows align md =
     (let alignment = fold alignment_case2 align [];
          md1 = WriteString2 (''| '' @ Join headers '' | '' @ '' |'' @ [NL]) md;
          md2 = WriteString2 (alignment @ ''|'' @ [NL]) md1;
          md3 = fold (\<lambda>row. WriteString2 (''| '' @ Join row '' | '' @ '' |'' @ [NL])) rows md2
      in WriteString2 [NL] md3)"

definition Footnote2 :: "string \<Rightarrow> string \<Rightarrow> Markdown2 \<Rightarrow> Markdown2" where
  "Footnote2 label text md =
     WriteString2 (''['' @ label @ '']: '' @ text @ '' [Return to text](#fn-'' @ label
                     @ ''-back)'' @ [NL]) md"

definition MultiLineFootnote2 :: "string \<Rightarrow> string list \<Rightarrow> Markdown2 \<Rightarrow> Markdown2" where
  "MultiLineFootnote2 label lines md =
     (let md1 = WriteString2 (''['' @ label @ '']: '') md;
          md2 = fold (\<lambda>line. WriteString2 (line @ [NL])) lines md1
      in WriteString2 (''[Return to text](#fn-'' @ label @ ''-back)'' @ [NL, NL]) md2)"

definition Blockquote2 :: "string \<Rightarrow> Markdown2 \<Rightarrow> Markdown2" where
  "Blockquote2 text md = WriteString2 (''> '' @ text @ [NL, NL]) md"

definition HorizontalRule2 :: "Markdown2 \<Rightarrow> Markdown2" where
  "HorizontalRule2 md = WriteString2 (''---'' @ [NL, NL]) md"

definition specialChars2 :: "string list" where
  "specialChars2 = [[BS], [BT], ''*'', ''_'', ''{'', ''}'', ''['', '']'', ''('', '')'', ''#'',
                    ''+'', ''-'', ''.'', ''!'']"

text \<open>Every entry of \<^verbatim>\<open>specialChars\<close> is one byte, which \<open>hd\<close> reads.\<close>

definition Escape2 :: "string \<Rightarrow> Markdown2 \<Rightarrow> string \<times> Markdown2" where
  "Escape2 text md =
     (fold (\<lambda>char escaped. ReplaceAll escaped (hd char) ([BS] @ char)) specialChars2 text, md)"

definition ToHTML2 :: "Markdown2 \<Rightarrow> string \<times> Markdown2" where
  "ToHTML2 md =
     (case GetContent2 md of
        (c, md1) \<Rightarrow> (''<html>'' @ ReplaceAll c NL ''<br>'' @ ''</html>'', md1))"

subsection \<open>Calls of the operations that write\<close>

text \<open>
  To speak of every operation and of every sequence of operations, a call of a method
  that returns nothing is a value, and \<open>exec\<close> runs it on a document.
\<close>

datatype call =
    FrontMatter_call "string gomap"
  | Heading_call int string string string
  | Paragraph_call string "string list"
  | CodeBlock_call string string
  | ReferenceLink_call string string string
  | Image_call string string
  | List_call "string list" bool
  | NestedList_call "string list list" bool
  | Table_call "string list" "string list list" "string list"
  | Blockquote_call string
  | HorizontalRule_call
  | Footnote_call string string
  | MultiLineFootnote_call string "string list"
  | DefinitionList_call "string list gomap"
  | CustomDiv_call string string
  | TaskList_call "string list" "bool list"
  | MermaidDiagram_call string
  | MathBlock_call string

fun exec :: "call \<Rightarrow> Markdown \<Rightarrow> Markdown" where
  "exec (FrontMatter_call metadata) md = FrontMatter metadata md"
| "exec (Heading_call level text ident attributes) md = Heading level text ident attributes md"
| "exec (Paragraph_call text formats) md = Paragraph text formats md"
| "exec (CodeBlock_call language code) md = CodeBlock language code md"
| "exec (ReferenceLink_call label text url) md = ReferenceLink label text url md"
| "exec (Image_call altText url) md = Image_md altText url md"
| "exec (List_call items isOrdered) md = List items isOrdered md"
| "exec (NestedList_call nestedItems isOrdered) md = NestedList nestedItems isOrdered md"
| "exec (Table_call headers rows align) md = Table headers rows align md"
| "exec (Blockquote_call text) md = Blockquote text md"
| "exec HorizontalRule_call md = HorizontalRule md"
| "exec (Footnote_call label text) md = Footnote label text md"
| "exec (MultiLineFootnote_call label lines) md = MultiLineFootnote label lines md"
| "exec (DefinitionList_call definitions) md = DefinitionList definitions md"
| "exec (CustomDiv_call className body) md = CustomDiv className body md"
| "exec (TaskList_call items checked) md = TaskList items checked md"
| "exec (MermaidDiagram_call diagram) md = MermaidDiagram diagram md"
| "exec (MathBlock_call equation) md = MathBlock equation md"

datatype call2 =
    FrontMatter2_call "string gomap"
  | Heading2_call int string string
  | TableOfContents_call
  | Paragraph2_call string "string list"
  | MathBlock2_call string
  | MermaidDiagram2_call string
  | CustomDiv2_call string string
  | Emoji_call string
  | AutoLink_call string
  | Image2_call string string
  | CodeBlock2_call string string
  | UnorderedList_call "string list"
  | OrderedList_call "string list"
  | NestedList2_call "string list list" bool
  | TaskList2_call "string list" "bool list"
  | Table2_call "string list" "string list list" "string list"
  | Footnote2_call string string
  | MultiLineFootnote2_call string "string list"
  | Blockquote2_call string
  | HorizontalRule2_call

text \<open>
  A call of the earlier library gives the panic, if there was one, with the document as
  the call left it.
\<close>

fun exec2 :: "call2 \<Rightarrow> Markdown2 \<Rightarrow> error option \<times> Markdown2" where
  "exec2 (FrontMatter2_call metadata) md = (None, FrontMatter2 metadata md)"
| "exec2 (Heading2_call level text ident) md = (None, Heading2 level text ident md)"
| "exec2 TableOfContents_call md = (None, TableOfContents md)"
| "exec2 (Paragraph2_call text formats) md = (None, Paragraph2 text formats md)"
| "exec2 (MathBlock2_call equation) md = (None, MathBlock2 equation md)"
| "exec2 (MermaidDiagram2_call diagram) md = (None, MermaidDiagram2 diagram md)"
| "exec2 (CustomDiv2_call className body) md = (None, CustomDiv2 className body md)"
| "exec2 (Emoji_call emoji) md = (None, Emoji emoji md)"
| "exec2 (AutoLink_call url) md = (None, AutoLink url md)"
| "exec2 (Image2_call altText url) md = (None, Image2 altText url md)"
| "exec2 (CodeBlock2_call language code) md = (None, CodeBlock2 language code md)"
| "exec2 (UnorderedList_call items) md = (None, UnorderedList items md)"
| "exec2 (OrderedList_call items) md = (None, OrderedList items md)"
| "exec2 (NestedList2_call lists0 isOrdered) md = (None, NestedList2 lists0 isOrdered md)"
| "exec2 (TaskList2_call items checked) md = TaskList2 items checked md"
| "exec2 (Table2_call headers rows align) md = (None, Table2 headers rows align md)"
| "exec2 (Footnote2_call label text) md = (None, Footnote2 label text md)"
| "exec2 (MultiLineFootnote2_call label lines) md = (None, MultiLineFootnote2 label lines md)"
| "exec2 (Blockquote2_call text) md = (None, Blockquote2 text md)"
| "exec2 HorizontalRule2_call md = (None, HorizontalRule2 md)"

subsection \<open>Runs of calls, and the words of the specification\<close>

text \<open>A sequence of calls of the earlier library, one after the other.\<close>

definition run2 :: "call2 list \<Rightarrow> Markdown2 \<Rightarrow> Markdown2" where
  "run2 cs md = fold (\<lambda>c m. snd (exec2 c m)) cs md"

text \<open>The headings that a sequence of calls emits, in the order of the calls.\<close>

fun emitted_headings :: "call2 list \<Rightarrow> (int \<times> string \<times> string) list" where
  "emitted_headings [] = []"
| "emitted_headings (Heading2_call level text ident # cs) =
     (level, text, ident) # emitted_headings cs"
| "emitted_headings (c # cs) = emitted_headings cs"

text \<open>
  The specification's heading: the level clamped to 1..6 (1 when out of range), that many
  \<open>#\<close>, a space, the text, and the anchor in braces when there is one.
\<close>

definition clamp :: "int \<Rightarrow> nat" where
  "clamp level = (if 1 \<le> level \<and> level \<le> 6 then nat level else 1)"

definition heading_fragment :: "int \<Rightarrow> string \<Rightarrow> string \<Rightarrow> string" where
  "heading_fragment level text ident =
     replicate (clamp level) CHR ''#'' @ '' '' @ text
       @ (if ident = [] then [] else '' {#'' @ ident @ ''}'')"

text \<open>The specification's line of the table of contents for one heading.\<close>

definition toc_line :: "int \<times> string \<times> string \<Rightarrow> string" where
  "toc_line h = (case h of (level, text, ident) \<Rightarrow> ''- '' @ heading_fragment level text ident @ [NL])"

text \<open>
  The specification's table: a row is \<open>| c1 | c2 | ... |\<close>, and a cell of the
  alignment row is \<open>:---|\<close> for left, \<open>:---:|\<close> for center, \<open>---:|\<close> for right and
  \<open>---|\<close> for anything else.
\<close>

definition table_row :: "string list \<Rightarrow> string" where
  "table_row cells = ''| '' @ Join cells '' | '' @ '' |'' @ [NL]"

definition align_cell :: "string \<Rightarrow> string" where
  "align_cell a =
     (if a = ''left'' then '':---|''
      else if a = ''center'' then '':---:|''
      else if a = ''right'' then ''---:|''
      else ''---|'')"

text \<open>
  The specification's line of a task list: the item at index \<open>i\<close> is checked when
  \<open>checked\<close> has an entry at \<open>i\<close> and the entry is true.
\<close>

definition task_line :: "bool list \<Rightarrow> nat \<times> string \<Rightarrow> string" where
  "task_line checked p =
     (case p of (i, item) \<Rightarrow>
        ''- ['' @ (if i < length checked \<and> checked ! i then ''x'' else '' '') @ ''] '' @ item @ [NL])"

text \<open>The specification's line of the front matter for a key: nothing when the key is missing.\<close>

definition front_line :: "string gomap \<Rightarrow> string \<Rightarrow> string" where
  "front_line metadata key =
     (case map_of metadata key of
        Some v \<Rightarrow> key @ '': '' @ [DQ] @ v @ [DQ] @ [NL]
      | None \<Rightarrow> [])"

text \<open>
  The specification's escaping, in one pass from left to right: a character of the fixed
  set gets one backslash before it, any other character stays.
\<close>

definition special :: "char \<Rightarrow> bool" where
  "special c = (c \<in> set ([BS, BT] @ ''*_{}[]()#+-.!''))"

definition escape_pass :: "string \<Rightarrow> string" where
  "escape_pass s = concat (map (\<lambda>c. if special c then [BS, c] else [c]) s)"

section \<open>The buffer only grows\<close>

lemma content_WriteString: "content (WriteString s md) = content md @ s"
  by (simp add: WriteString_def)

lemma WriteString_grows: "prefix (content md) (content (WriteString s md))"
  by (simp add: content_WriteString)

lemma fold_grows:
  assumes "\<And>x m. prefix (content m) (content (f x m))"
  shows "prefix (content md) (content (fold f xs md))"
proof (induction xs arbitrary: md)
  case Nil
  show ?case by simp
next
  case (Cons x xs)
  have "prefix (content md) (content (f x md))" by (rule assms)
  also have "prefix (content (f x md)) (content (fold f xs (f x md)))" by (rule Cons.IH)
  finally show ?case by simp
qed

lemma fold_after:
  assumes "\<And>x m. prefix (content m) (content (f x m))"
    and "prefix (content a) (content b)"
  shows "prefix (content a) (content (fold f xs b))"
  using assms(2) fold_grows [of f b xs, OF assms(1)] by (rule prefix_order.trans)

lemma WriteString_after:
  "prefix (content a) (content b) \<Longrightarrow> prefix (content a) (content (WriteString s b))"
  by (simp add: content_WriteString)

lemma FrontMatter_grows: "prefix (content md) (content (FrontMatter metadata md))"
proof -
  have "prefix (content m) (content (case map_of metadata key of
          Some v \<Rightarrow> WriteString (key @ '': '' @ [DQ] @ v @ [DQ] @ [NL]) m
        | None \<Rightarrow> m))" for key m
    by (simp add: content_WriteString split: option.split)
  then show ?thesis
    unfolding FrontMatter_def Let_def
    by (intro WriteString_after fold_after WriteString_grows)
qed

lemma Heading_grows: "prefix (content md) (content (Heading level text ident attributes md))"
  by (simp add: Heading_def Let_def content_WriteString)

lemma ApplyFormatting_frame: "snd (ApplyFormatting text formats md) = md"
  by (simp add: ApplyFormatting_def)

lemma Paragraph_grows: "prefix (content md) (content (Paragraph text formats md))"
  by (simp add: Paragraph_def ApplyFormatting_def content_WriteString)

lemma CodeBlock_grows: "prefix (content md) (content (CodeBlock language code md))"
  by (simp add: CodeBlock_def content_WriteString)

lemma ReferenceLink_grows: "prefix (content md) (content (ReferenceLink label text url md))"
  by (simp add: ReferenceLink_def content_WriteString)

lemma Image_md_grows: "prefix (content md) (content (Image_md altText url md))"
  by (simp add: Image_md_def content_WriteString)

lemma List_grows: "prefix (content md) (content (List items isOrdered md))"
proof -
  have "prefix (content m) (content ((case x of (i, item) \<Rightarrow> \<lambda>m.
          if isOrdered then WriteString (itoa (i + 1) @ ''. '' @ item @ [NL]) m
          else WriteString (''- '' @ item @ [NL]) m) m))" for x m
    by (cases x) (simp add: content_WriteString)
  then show ?thesis
    unfolding List_def by (simp add: WriteString_after fold_after)
qed

lemma NestedList_grows: "prefix (content md) (content (NestedList nestedItems isOrdered md))"
proof -
  have inner: "prefix (content m) (content ((case y of (j, item) \<Rightarrow>
          if j = 0 then WriteString (''- '' @ item @ [NL])
          else WriteString (''  - '' @ item @ [NL])) m))" for y :: "nat \<times> string" and m
    by (cases y) (simp add: content_WriteString)
  have "prefix (content m) (content ((case x of (i, items) \<Rightarrow> \<lambda>m.
          if isOrdered
          then fold (\<lambda>item. WriteString (itoa (i + 1) @ ''. '' @ item @ [NL])) items m
          else fold (\<lambda>(j, item).
                       if j = 0 then WriteString (''- '' @ item @ [NL])
                       else WriteString (''  - '' @ item @ [NL]))
                 (enumerate 0 items) m) m))" for x m
    by (cases x) (simp add: fold_grows WriteString_grows inner)
  then show ?thesis
    unfolding NestedList_def by (simp add: WriteString_after fold_after)
qed

lemma Table_grows: "prefix (content md) (content (Table headers rows align md))"
proof -
  have "prefix (content m) (content (if length row \<noteq> length headers then m
          else WriteString (''| '' @ Join row '' | '' @ '' |'' @ [NL]) m))" for row m
    by (simp add: content_WriteString)
  then show ?thesis
    unfolding Table_def Let_def
    by (simp add: WriteString_after fold_after WriteString_grows del: Join.simps)
qed

lemma Blockquote_grows: "prefix (content md) (content (Blockquote text md))"
  by (simp add: Blockquote_def content_WriteString)

lemma HorizontalRule_grows: "prefix (content md) (content (HorizontalRule md))"
  by (simp add: HorizontalRule_def content_WriteString)

lemma Footnote_grows: "prefix (content md) (content (Footnote label text md))"
  by (simp add: Footnote_def content_WriteString)

lemma MultiLineFootnote_grows: "prefix (content md) (content (MultiLineFootnote label lines md))"
  unfolding MultiLineFootnote_def Let_def
  by (simp add: WriteString_after fold_after WriteString_grows)

lemma DefinitionList_grows: "prefix (content md) (content (DefinitionList definitions md))"
proof -
  have "prefix (content m) (content (if term_of d = [] \<or> length (definitions_of d) = 0 then m
          else
            let m1 = WriteString (term_of d @ [NL]) m;
                m2 = fold (\<lambda>definition. WriteString ('': '' @ definition @ [NL]))
                       (definitions_of d) m1
            in WriteString [NL] m2))" for d :: OrderedDefinition and m
    by (simp add: Let_def WriteString_after fold_after WriteString_grows)
  then show ?thesis
    unfolding DefinitionList_def Let_def
    by (simp only: fold_grows prefix_order.refl if_split [of "prefix (content md)"] if_distrib [of content]
          if_True if_False simp_thms split: if_split)
qed

lemma CustomDiv_grows: "prefix (content md) (content (CustomDiv className body md))"
  by (simp add: CustomDiv_def content_WriteString)

lemma TaskList_grows: "prefix (content md) (content (TaskList items checked md))"
proof -
  have "prefix (content m) (content ((case x of (i, item) \<Rightarrow> \<lambda>m.
          if item = [] then m
          else
            let check = (if i < length checked \<and> checked ! i then ''x'' else '' '')
            in WriteString (''- ['' @ check @ ''] '' @ item @ [NL]) m) m))" for x m
    by (cases x) (simp add: content_WriteString Let_def)
  then show ?thesis
    unfolding TaskList_def by (simp add: WriteString_after fold_after)
qed

lemma MermaidDiagram_grows: "prefix (content md) (content (MermaidDiagram diagram md))"
  by (simp add: MermaidDiagram_def content_WriteString)

lemma MathBlock_grows: "prefix (content md) (content (MathBlock equation md))"
  by (simp add: MathBlock_def content_WriteString)

lemma exec_grows: "prefix (content md) (content (exec c md))"
  by (cases c)
     (simp_all add: FrontMatter_grows Heading_grows Paragraph_grows CodeBlock_grows
        ReferenceLink_grows Image_md_grows List_grows NestedList_grows Table_grows
        Blockquote_grows HorizontalRule_grows Footnote_grows MultiLineFootnote_grows
        DefinitionList_grows CustomDiv_grows TaskList_grows MermaidDiagram_grows MathBlock_grows)


lemma content2_WriteString2: "content2 (WriteString2 s md) = content2 md @ s"
  by (simp add: WriteString2_def)

lemma headings_WriteString2: "headings (WriteString2 s md) = headings md"
  by (simp add: WriteString2_def)

lemma WriteString2_grows: "prefix (content2 md) (content2 (WriteString2 s md))"
  by (simp add: content2_WriteString2)

lemma WriteString2_after:
  "prefix (content2 a) (content2 b) \<Longrightarrow> prefix (content2 a) (content2 (WriteString2 s b))"
  by (simp add: content2_WriteString2)

lemma fold2_grows:
  assumes "\<And>x m. prefix (content2 m) (content2 (f x m))"
  shows "prefix (content2 md) (content2 (fold f xs md))"
proof (induction xs arbitrary: md)
  case Nil
  show ?case by simp
next
  case (Cons x xs)
  have "prefix (content2 md) (content2 (f x md))" by (rule assms)
  also have "prefix (content2 (f x md)) (content2 (fold f xs (f x md)))" by (rule Cons.IH)
  finally show ?case by simp
qed

lemma fold2_after:
  assumes "\<And>x m. prefix (content2 m) (content2 (f x m))"
    and "prefix (content2 a) (content2 b)"
  shows "prefix (content2 a) (content2 (fold f xs b))"
  using assms(2) fold2_grows [of f b xs, OF assms(1)] by (rule prefix_order.trans)

lemma FrontMatter2_grows: "prefix (content2 md) (content2 (FrontMatter2 metadata md))"
proof -
  have "prefix (content2 m) (content2 ((case x of (key, v) \<Rightarrow>
          WriteString2 (key @ '': '' @ [DQ] @ v @ [DQ] @ [NL])) m))" for x :: "string \<times> string" and m
    by (cases x) (simp add: content2_WriteString2)
  then show ?thesis
    unfolding FrontMatter2_def Let_def
    by (intro WriteString2_after fold2_after WriteString2_grows)
qed

lemma Heading2_grows: "prefix (content2 md) (content2 (Heading2 level text ident md))"
  by (simp add: Heading2_def Let_def content2_WriteString2)

lemma TableOfContents_grows: "prefix (content2 md) (content2 (TableOfContents md))"
proof -
  have "prefix (content2 m) (content2 (if ID heading \<noteq> []
          then WriteString2 (''- '' @ Text heading @ '' {#'' @ ID heading @ ''}'' @ [NL]) m
          else WriteString2 (''- '' @ Text heading @ [NL]) m))" for heading :: Heading and m
    by (simp add: content2_WriteString2)
  then show ?thesis
    unfolding TableOfContents_def Let_def
    by (intro WriteString2_after fold2_after WriteString2_grows)
qed

lemma applyFormatting_frame: "snd (applyFormatting t formats md) = md"
  by (induction formats arbitrary: t)
     (simp_all add: Bold_def Italic_def Strikethrough_def InlineCode_def)

lemma Paragraph2_grows: "prefix (content2 md) (content2 (Paragraph2 t formats md))"
proof -
  obtain formatted md1 where eq: "applyFormatting t formats md = (formatted, md1)"
    by (cases "applyFormatting t formats md")
  with applyFormatting_frame [of t formats md] have "md1 = md" by simp
  with eq show ?thesis by (simp add: Paragraph2_def content2_WriteString2)
qed

lemma MathBlock2_grows: "prefix (content2 md) (content2 (MathBlock2 equation md))"
  by (simp add: MathBlock2_def content2_WriteString2)

lemma MermaidDiagram2_grows: "prefix (content2 md) (content2 (MermaidDiagram2 diagram md))"
  by (simp add: MermaidDiagram2_def content2_WriteString2)

lemma CustomDiv2_grows: "prefix (content2 md) (content2 (CustomDiv2 className body md))"
  by (simp add: CustomDiv2_def content2_WriteString2)

lemma Emoji_grows: "prefix (content2 md) (content2 (Emoji emoji md))"
  by (simp add: Emoji_def content2_WriteString2)

lemma AutoLink_grows: "prefix (content2 md) (content2 (AutoLink url md))"
  by (simp add: AutoLink_def content2_WriteString2)

lemma Image2_grows: "prefix (content2 md) (content2 (Image2 altText url md))"
  by (simp add: Image2_def content2_WriteString2)

lemma CodeBlock2_grows: "prefix (content2 md) (content2 (CodeBlock2 language code md))"
  by (simp add: CodeBlock2_def content2_WriteString2)

lemma UnorderedList_grows: "prefix (content2 md) (content2 (UnorderedList items md))"
  unfolding UnorderedList_def
  by (intro WriteString2_after fold2_grows WriteString2_grows)

lemma OrderedList_grows: "prefix (content2 md) (content2 (OrderedList items md))"
proof -
  have "prefix (content2 m) (content2 ((case x of (i, item) \<Rightarrow>
          WriteString2 (itoa (i + 1) @ ''. '' @ item @ [NL])) m))" for x :: "nat \<times> string" and m
    by (cases x) (simp add: content2_WriteString2)
  then show ?thesis
    unfolding OrderedList_def by (intro WriteString2_after fold2_grows)
qed

lemma NestedList2_grows: "prefix (content2 md) (content2 (NestedList2 lists0 isOrdered md))"
proof -
  have inner: "prefix (content2 m) (content2 ((case y of (level, item) \<Rightarrow>
          let indent = Repeat ''  '' level in
          if isOrdered
          then WriteString2 (indent @ itoa (level + 1) @ ''. '' @ item @ [NL])
          else WriteString2 (indent @ ''- '' @ item @ [NL])) m))" for y :: "nat \<times> string" and m
    by (cases y) (simp add: content2_WriteString2 Let_def)
  then show ?thesis
    unfolding NestedList2_def by (intro WriteString2_after fold2_grows)
qed

lemma TaskList2_loop_grows:
  "prefix (content2 md) (content2 (snd (TaskList2_loop xs checked md)))"
proof (induction xs checked md rule: TaskList2_loop.induct)
  case (1 checked md)
  show ?case by simp
next
  case (2 i item rest checked md)
  show ?case
  proof (cases "i < length checked")
    case True
    let ?md1 = "WriteString2 (''- ['' @ (if checked ! i then ''x'' else '' '') @ ''] '' @ item @ [NL]) md"
    have "prefix (content2 md) (content2 ?md1)" by (rule WriteString2_grows)
    also have "prefix (content2 ?md1) (content2 (snd (TaskList2_loop rest checked ?md1)))"
      using "2.IH" [OF True refl] by simp
    finally show ?thesis using True by (simp add: Let_def)
  next
    case False
    then show ?thesis by simp
  qed
qed

lemma TaskList2_grows: "prefix (content2 md) (content2 (snd (TaskList2 items checked md)))"
proof -
  obtain e md1 where eq: "TaskList2_loop (enumerate 0 items) checked md = (e, md1)"
    by (cases "TaskList2_loop (enumerate 0 items) checked md")
  with TaskList2_loop_grows [of md "enumerate 0 items" checked]
  have "prefix (content2 md) (content2 md1)" by simp
  with eq show ?thesis
    by (cases e) (simp_all add: TaskList2_def content2_WriteString2)
qed

lemma Table2_grows: "prefix (content2 md) (content2 (Table2 headers rows align md))"
  unfolding Table2_def Let_def
  by (intro WriteString2_after fold2_after WriteString2_grows)

lemma Footnote2_grows: "prefix (content2 md) (content2 (Footnote2 label text md))"
  by (simp add: Footnote2_def content2_WriteString2)

lemma MultiLineFootnote2_grows: "prefix (content2 md) (content2 (MultiLineFootnote2 label lines md))"
  unfolding MultiLineFootnote2_def Let_def
  by (intro WriteString2_after fold2_after WriteString2_grows)

lemma Blockquote2_grows: "prefix (content2 md) (content2 (Blockquote2 text md))"
  by (simp add: Blockquote2_def content2_WriteString2)

lemma HorizontalRule2_grows: "prefix (content2 md) (content2 (HorizontalRule2 md))"
  by (simp add: HorizontalRule2_def content2_WriteString2)

lemma exec2_grows: "prefix (content2 md) (content2 (snd (exec2 c md)))"
  by (cases c)
     (simp_all add: FrontMatter2_grows Heading2_grows TableOfContents_grows Paragraph2_grows
        MathBlock2_grows MermaidDiagram2_grows CustomDiv2_grows Emoji_grows AutoLink_grows
        Image2_grows CodeBlock2_grows UnorderedList_grows OrderedList_grows NestedList2_grows
        TaskList2_grows Table2_grows Footnote2_grows MultiLineFootnote2_grows Blockquote2_grows
        HorizontalRule2_grows)

text \<open>
  Claim C1. Whatever the document and whatever the operation and its arguments, the
  text that \<^verbatim>\<open>GetContent\<close> returns before the call is a prefix of the text it
  returns after the call: every operation only writes at the end of the buffer. This
  holds for the operations of the current library and for those of the earlier library
  (\<^verbatim>\<open>TableOfContents\<close> among them), also when \<^verbatim>\<open>TaskList\<close> of the earlier
  library panics half way.
\<close>

theorem content_only_grows:
  "prefix (fst (GetContent md)) (fst (GetContent (exec c md))) \<and>
   prefix (fst (GetContent2 md2)) (fst (GetContent2 (snd (exec2 c2 md2))))"
  by (simp add: GetContent_def GetContent2_def exec_grows exec2_grows)

theorem content_only_grows_witness:
  "prefix (fst (GetContent (New StandardMarkdown False)))
     (fst (GetContent (exec (Heading_call 2 ''Title'' ''top'' []) (New StandardMarkdown False)))) \<and>
   prefix (fst (GetContent2 (Heading2 1 ''A'' [] New2)))
     (fst (GetContent2 (snd (exec2 TableOfContents_call (Heading2 1 ''A'' [] New2)))))"
  by (rule content_only_grows)

section \<open>Headings\<close>

lemma Repeat_hash: "Repeat ''#'' n = replicate n CHR ''#''"
  by (induction n) (simp_all add: Repeat_def)

lemma nat_clamped: "nat (if level < 1 \<or> level > 6 then 1 else level) = clamp level"
  by (simp add: clamp_def)

lemma Heading_writes:
  "text \<noteq> [] \<Longrightarrow>
     Heading level text ident [] md =
       md\<lparr>content := content md @ heading_fragment level text ident @ [NL, NL]\<rparr>"
  by (simp add: Heading_def Let_def WriteString_def heading_fragment_def Repeat_hash nat_clamped)

text \<open>
  With attributes, \<^verbatim>\<open>Heading\<close> of the current library writes them in braces after
  the anchor.
\<close>

lemma Heading_writes_attributes:
  "text \<noteq> [] \<Longrightarrow> attributes \<noteq> [] \<Longrightarrow>
     Heading level text ident attributes md =
       md\<lparr>content := content md @ heading_fragment level text ident
              @ '' {'' @ attributes @ ''}'' @ [NL, NL]\<rparr>"
  by (simp add: Heading_def Let_def WriteString_def heading_fragment_def Repeat_hash nat_clamped)

lemma Heading2_writes:
  "content2 (Heading2 level text ident md) =
     content2 md @ heading_fragment level text ident @ [NL, NL]"
  by (simp add: Heading2_def Let_def WriteString2_def heading_fragment_def Repeat_hash nat_clamped)

lemma Heading2_logs:
  "headings (Heading2 level text ident md) =
     headings md @ [\<lparr>Text = replicate (clamp level) CHR ''#'' @ '' '' @ text, ID = ident\<rparr>]"
  by (simp add: Heading2_def Let_def WriteString2_def Repeat_hash nat_clamped)

text \<open>
  Claim C4. For every level and every text that is not empty, a heading appends the
  clamped number of \<open>#\<close> (the level when it is between 1 and 6, else 1), one space, the
  text, the anchor \<open>{#id}\<close> after a space when the id is not empty, and two newlines,
  and nothing else: in the current library (called with no attributes) the document is
  otherwise unchanged, and the earlier library writes the same fragment. A heading of
  level 7 is the heading of level 1.
\<close>

theorem Heading_fragment:
  "text \<noteq> [] \<Longrightarrow>
     Heading level text ident [] md =
       md\<lparr>content := content md @ heading_fragment level text ident @ [NL, NL]\<rparr> \<and>
     content2 (Heading2 level text ident md2) =
       content2 md2 @ heading_fragment level text ident @ [NL, NL] \<and>
     Heading 7 ''X'' [] [] md = Heading 1 ''X'' [] [] md \<and>
     Heading2 7 ''X'' [] md2 = Heading2 1 ''X'' [] md2"
proof (intro conjI)
  assume "text \<noteq> []"
  then show "Heading level text ident [] md =
      md\<lparr>content := content md @ heading_fragment level text ident @ [NL, NL]\<rparr>"
    by (rule Heading_writes)
next
  show "content2 (Heading2 level text ident md2) =
      content2 md2 @ heading_fragment level text ident @ [NL, NL]"
    by (rule Heading2_writes)
next
  show "Heading 7 ''X'' [] [] md = Heading 1 ''X'' [] [] md"
    by (simp add: Heading_def)
next
  show "Heading2 7 ''X'' [] md2 = Heading2 1 ''X'' [] md2"
    by (simp add: Heading2_def)
qed

theorem Heading_fragment_witness:
  "''X'' \<noteq> [] \<and>
   content (Heading 7 ''X'' [] [] (New StandardMarkdown False)) = ''# X'' @ [NL, NL] \<and>
   content2 (Heading2 7 ''X'' [] New2) = ''# X'' @ [NL, NL] \<and>
   Heading 7 ''X'' [] [] (New StandardMarkdown False) = Heading 1 ''X'' [] [] (New StandardMarkdown False)"
proof -
  have ne: "''X'' \<noteq> []" by simp
  note h = Heading_fragment [OF ne, of 7 "[]" "New StandardMarkdown False" New2]
  have a: "content (Heading 7 ''X'' [] [] (New StandardMarkdown False)) = ''# X'' @ [NL, NL]"
    by (simp add: h [THEN conjunct1]) (simp add: heading_fragment_def clamp_def New_def)
  have b: "content2 (Heading2 7 ''X'' [] New2) = ''# X'' @ [NL, NL]"
    by (simp add: h [THEN conjunct2, THEN conjunct1])
       (simp add: heading_fragment_def clamp_def New2_def)
  have c: "Heading 7 ''X'' [] [] (New StandardMarkdown False) = Heading 1 ''X'' [] [] (New StandardMarkdown False)"
    by (rule h [THEN conjunct2, THEN conjunct2, THEN conjunct1])
  show ?thesis using ne a b c by blast
qed

section \<open>The heading log and the table of contents\<close>

lemma fold2_headings:
  assumes "\<And>x m. headings (f x m) = headings m"
  shows "headings (fold f xs md) = headings md"
  by (induction xs arbitrary: md) (simp_all add: assms)

lemma FrontMatter2_headings: "headings (FrontMatter2 metadata md) = headings md"
proof -
  have "headings ((case x of (key, v) \<Rightarrow>
          WriteString2 (key @ '': '' @ [DQ] @ v @ [DQ] @ [NL])) m) = headings m"
    for x :: "string \<times> string" and m
    by (cases x) (simp add: headings_WriteString2)
  then show ?thesis
    by (simp add: FrontMatter2_def Let_def headings_WriteString2 fold2_headings)
qed

lemma TableOfContents_headings: "headings (TableOfContents md) = headings md"
proof -
  have "headings (if ID heading \<noteq> []
          then WriteString2 (''- '' @ Text heading @ '' {#'' @ ID heading @ ''}'' @ [NL]) m
          else WriteString2 (''- '' @ Text heading @ [NL]) m) = headings m"
    for heading :: Heading and m
    by (simp add: headings_WriteString2)
  then show ?thesis
    by (simp add: TableOfContents_def Let_def headings_WriteString2 fold2_headings)
qed

lemma Paragraph2_headings: "headings (Paragraph2 t formats md) = headings md"
proof -
  obtain formatted md1 where eq: "applyFormatting t formats md = (formatted, md1)"
    by (cases "applyFormatting t formats md")
  with applyFormatting_frame [of t formats md] have "md1 = md" by simp
  with eq show ?thesis by (simp add: Paragraph2_def headings_WriteString2)
qed

lemma OrderedList_headings: "headings (OrderedList items md) = headings md"
proof -
  have "headings ((case x of (i, item) \<Rightarrow>
          WriteString2 (itoa (i + 1) @ ''. '' @ item @ [NL])) m) = headings m"
    for x :: "nat \<times> string" and m
    by (cases x) (simp add: headings_WriteString2)
  then show ?thesis
    by (simp add: OrderedList_def headings_WriteString2 fold2_headings)
qed

lemma NestedList2_headings: "headings (NestedList2 lists0 isOrdered md) = headings md"
proof -
  have "headings ((case y of (level, item) \<Rightarrow>
          let indent = Repeat ''  '' level in
          if isOrdered
          then WriteString2 (indent @ itoa (level + 1) @ ''. '' @ item @ [NL])
          else WriteString2 (indent @ ''- '' @ item @ [NL])) m) = headings m"
    for y :: "nat \<times> string" and m
    by (cases y) (simp add: headings_WriteString2 Let_def)
  then show ?thesis
    by (simp add: NestedList2_def headings_WriteString2 fold2_headings)
qed

lemma TaskList2_loop_headings:
  "headings (snd (TaskList2_loop xs checked md)) = headings md"
  by (induction xs checked md rule: TaskList2_loop.induct)
     (simp_all add: Let_def headings_WriteString2)

lemma TaskList2_headings: "headings (snd (TaskList2 items checked md)) = headings md"
proof -
  obtain e md1 where eq: "TaskList2_loop (enumerate 0 items) checked md = (e, md1)"
    by (cases "TaskList2_loop (enumerate 0 items) checked md")
  with TaskList2_loop_headings [of "enumerate 0 items" checked md]
  have "headings md1 = headings md" by simp
  with eq show ?thesis
    by (cases e) (simp_all add: TaskList2_def headings_WriteString2)
qed

lemma Table2_headings: "headings (Table2 headers rows align md) = headings md"
  by (simp add: Table2_def Let_def headings_WriteString2 fold2_headings del: Join.simps)

lemma MultiLineFootnote2_headings: "headings (MultiLineFootnote2 label lines md) = headings md"
  by (simp add: MultiLineFootnote2_def Let_def headings_WriteString2 fold2_headings)

lemma UnorderedList_headings: "headings (UnorderedList items md) = headings md"
  by (simp add: UnorderedList_def headings_WriteString2 fold2_headings)

text \<open>The record that \<^verbatim>\<open>Heading\<close> logs for a heading.\<close>

lemma exec2_headings:
  "headings (snd (exec2 c md)) =
     headings md @ map (\<lambda>(level, t, ident).
                          \<lparr>Text = replicate (clamp level) CHR ''#'' @ '' '' @ t, ID = ident\<rparr>)
                     (emitted_headings [c])"
  by (cases c)
     (simp_all add: FrontMatter2_headings Heading2_logs TableOfContents_headings
        Paragraph2_headings OrderedList_headings NestedList2_headings TaskList2_headings
        Table2_headings MultiLineFootnote2_headings UnorderedList_headings
        headings_WriteString2 MathBlock2_def MermaidDiagram2_def CustomDiv2_def Emoji_def
        AutoLink_def Image2_def CodeBlock2_def Footnote2_def Blockquote2_def
        HorizontalRule2_def)

lemma emitted_headings_Cons:
  "emitted_headings (c # cs) = emitted_headings [c] @ emitted_headings cs"
  by (cases c) simp_all

lemma run2_headings:
  "headings (run2 cs md) =
     headings md @ map (\<lambda>(level, t, ident).
                          \<lparr>Text = replicate (clamp level) CHR ''#'' @ '' '' @ t, ID = ident\<rparr>)
                     (emitted_headings cs)"
proof (induction cs arbitrary: md)
  case Nil
  show ?case by (simp add: run2_def)
next
  case (Cons c cs)
  have "run2 (c # cs) md = run2 cs (snd (exec2 c md))" by (simp add: run2_def)
  then show ?case
    by (simp add: Cons.IH exec2_headings emitted_headings_Cons [of c cs])
qed

lemma toc_fold:
  "content2 (fold (\<lambda>heading m.
       if ID heading \<noteq> []
       then WriteString2 (''- '' @ Text heading @ '' {#'' @ ID heading @ ''}'' @ [NL]) m
       else WriteString2 (''- '' @ Text heading @ [NL]) m) hs md) =
   content2 md @ concat (map (\<lambda>h. ''- '' @ Text h
       @ (if ID h = [] then [] else '' {#'' @ ID h @ ''}'') @ [NL]) hs)"
  by (induction hs arbitrary: md) (simp_all add: content2_WriteString2)

lemma TableOfContents_writes:
  "content2 (TableOfContents md) =
     content2 md @ ''## Table of Contents'' @ [NL]
       @ concat (map (\<lambda>h. ''- '' @ Text h
           @ (if ID h = [] then [] else '' {#'' @ ID h @ ''}'') @ [NL]) (headings md)) @ [NL]"
  by (simp add: TableOfContents_def Let_def toc_fold content2_WriteString2 headings_WriteString2)

text \<open>
  Claim C2. After any sequence of calls on a new document, \<^verbatim>\<open>TableOfContents\<close>
  appends its title line, then one line for each heading that the calls emitted, in the
  order of the calls and with nothing left out or merged, each line being \<open>- \<close> and the
  heading as it was written (its \<open>#\<close> and, when there is an id, its \<open>{#id}\<close>), then
  an empty line. What an earlier call of \<^verbatim>\<open>TableOfContents\<close> wrote stays as it
  was (the buffer only grows): after two headings the first call lists two entries, and
  after a third heading the second call lists three.
\<close>

theorem TableOfContents_replays_log:
  "content2 (TableOfContents (run2 cs New2)) =
     content2 (run2 cs New2) @ ''## Table of Contents'' @ [NL]
       @ concat (map toc_line (emitted_headings cs)) @ [NL]"
proof -
  have "map (\<lambda>h. ''- '' @ Text h @ (if ID h = [] then [] else '' {#'' @ ID h @ ''}'') @ [NL])
          (headings (run2 cs New2)) = map toc_line (emitted_headings cs)"
    by (simp add: run2_headings New2_def toc_line_def heading_fragment_def split_def)
  then show ?thesis by (simp add: TableOfContents_writes)
qed

theorem TableOfContents_replays_log_witness:
  "content2 (TableOfContents (run2
      [Heading2_call 1 ''A'' [], Heading2_call 2 ''B'' ''b'', TableOfContents_call,
       Heading2_call 3 ''C'' []] New2)) =
   ''# A'' @ [NL, NL] @ ''## B {#b}'' @ [NL, NL]
     @ ''## Table of Contents'' @ [NL] @ ''- # A'' @ [NL] @ ''- ## B {#b}'' @ [NL] @ [NL]
     @ ''### C'' @ [NL, NL]
     @ ''## Table of Contents'' @ [NL] @ ''- # A'' @ [NL] @ ''- ## B {#b}'' @ [NL]
     @ ''- ### C'' @ [NL] @ [NL]"
proof -
  let ?two = "[Heading2_call 1 ''A'' [], Heading2_call 2 ''B'' ''b'']"
  have two: "content2 (run2 ?two New2) = ''# A'' @ [NL, NL] @ ''## B {#b}'' @ [NL, NL]"
    by (simp add: run2_def Heading2_writes heading_fragment_def clamp_def New2_def
          eval_nat_numeral)
  have split: "run2 (?two @ [TableOfContents_call, Heading2_call 3 ''C'' []]) New2 =
      Heading2 3 ''C'' [] (TableOfContents (run2 ?two New2))"
    by (simp add: run2_def)
  have first: "content2 (TableOfContents (run2 ?two New2)) =
      ''# A'' @ [NL, NL] @ ''## B {#b}'' @ [NL, NL]
        @ ''## Table of Contents'' @ [NL] @ ''- # A'' @ [NL] @ ''- ## B {#b}'' @ [NL] @ [NL]"
    unfolding TableOfContents_replays_log [of ?two] two
    by (simp add: toc_line_def heading_fragment_def clamp_def eval_nat_numeral)
  show ?thesis
    unfolding TableOfContents_replays_log
    using split first
    by (simp add: Heading2_writes toc_line_def heading_fragment_def clamp_def eval_nat_numeral)
qed

section \<open>Tables\<close>

lemma alignment_fold:
  "fold alignment_case align acc = acc @ concat (map align_cell align)"
  by (induction align arbitrary: acc) (simp_all add: alignment_case_def align_cell_def)

lemma rows_fold:
  "fold (\<lambda>row m.
      if length row \<noteq> length headers then m
      else WriteString (''| '' @ Join row '' | '' @ '' |'' @ [NL]) m) rows md =
   md\<lparr>content := content md
        @ concat (map table_row (filter (\<lambda>row. length row = length headers) rows))\<rparr>"
  by (induction rows arbitrary: md) (simp_all add: WriteString_def table_row_def del: Join.simps)

text \<open>
  The current library does what claim C3 says: for headers and rows that are not empty,
  \<^verbatim>\<open>Table\<close> appends the header row, the alignment row with one cell for each
  entry of \<open>align\<close>, and the rows that have as many cells as there are headers; a row
  of another length is left out, and the rows after it are still written.
\<close>

lemma Table_spec:
  "headers \<noteq> [] \<Longrightarrow> rows \<noteq> [] \<Longrightarrow>
     Table headers rows align md =
       md\<lparr>content := content md @ table_row headers
              @ ''|'' @ concat (map align_cell align) @ [NL]
              @ concat (map table_row (filter (\<lambda>row. length row = length headers) rows))
              @ [NL]\<rparr>"
  by (simp add: Table_def Let_def alignment_fold rows_fold del: Join.simps)
     (simp add: WriteString_def table_row_def del: Join.simps)

lemma Table_example:
  "content (Table [''Name'', ''Age''] [[''John'', ''30'']] [''left'', ''center'']
      (New StandardMarkdown False)) =
   ''| Name | Age |'' @ [NL] @ ''|:---|:---:|'' @ [NL] @ ''| John | 30 |'' @ [NL] @ [NL]"
  by (simp add: Table_spec) (simp add: table_row_def align_cell_def New_def)

lemma Table_skips_ragged_row:
  "content (Table [''Name'', ''Age''] [[''John''], [''Jane'', ''25'']] [''left'', ''center'']
      (New StandardMarkdown False)) =
   ''| Name | Age |'' @ [NL] @ ''|:---|:---:|'' @ [NL] @ ''| Jane | 25 |'' @ [NL] @ [NL]"
  by (simp add: Table_spec) (simp add: table_row_def align_cell_def New_def)

text \<open>
  Claim C3. For headers and rows that are not empty, \<^verbatim>\<open>Table\<close> is to append the
  header row, the alignment row and every row that has as many cells as there are
  headers, and to skip each row of another length. The current library does so
  (\<open>Table_spec\<close>, \<open>Table_example\<close>, \<open>Table_skips_ragged_row\<close>). The earlier library
  does not compare the lengths: for the headers \<open>Name, Age\<close> and the rows \<open>[John]\<close>
  and \<open>[Jane, 25]\<close> its \<^verbatim>\<open>Table\<close> writes the row \<open>| John |\<close> as well.
\<close>

theorem Table2_keeps_ragged_row:
  "content2 (Table2 [''Name'', ''Age''] [[''John''], [''Jane'', ''25'']] [''left'', ''center''] New2) =
   ''| Name | Age |'' @ [NL] @ ''|:---|:---:|'' @ [NL] @ ''| John |'' @ [NL]
     @ ''| Jane | 25 |'' @ [NL] @ [NL]"
  by (simp add: Table2_def Let_def WriteString2_def alignment_case2_def New2_def)

section \<open>Task lists\<close>

text \<open>
  The current library does what claim C5 says: \<^verbatim>\<open>TaskList\<close> reads \<open>checked\<close>
  only at an index below its length, so it returns for every pair of lists; an item with
  no text is left out, and the items after it are still written.
\<close>

lemma TaskList_fold:
  "fold (\<lambda>(i, item) m.
      if item = [] then m
      else
        let check = (if i < length checked \<and> checked ! i then ''x'' else '' '')
        in WriteString (''- ['' @ check @ ''] '' @ item @ [NL]) m) xs md =
   md\<lparr>content := content md
        @ concat (map (task_line checked) (filter (\<lambda>(i, item). item \<noteq> []) xs))\<rparr>"
proof (induction xs arbitrary: md)
  case Nil
  show ?case by simp
next
  case (Cons x xs)
  obtain i item where x: "x = (i, item)" by (cases x)
  show ?case
    by (simp add: Cons.IH x) (simp add: WriteString_def task_line_def Let_def)
qed

lemma TaskList_spec:
  "TaskList items checked md =
     (if items = [] then md
      else md\<lparr>content := content md
             @ concat (map (task_line checked)
                 (filter (\<lambda>(i, item). item \<noteq> []) (enumerate 0 items)))
             @ [NL]\<rparr>)"
  by (simp add: TaskList_def TaskList_fold) (simp add: WriteString_def)

lemma TaskList_example:
  "content (TaskList [''A'', ''B''] [True] (New StandardMarkdown False)) =
     ''- [x] A'' @ [NL] @ ''- [ ] B'' @ [NL] @ [NL] \<and>
   content (TaskList [''A'', [], ''C''] [False, True, True] (New StandardMarkdown False)) =
     ''- [ ] A'' @ [NL] @ ''- [x] C'' @ [NL] @ [NL]"
  by (simp add: TaskList_spec) (simp add: task_line_def New_def)

text \<open>
  Claim C5. For every list of items and every list \<open>checked\<close>, also a shorter one,
  \<^verbatim>\<open>TaskList\<close> is to return without a fault, with the items beyond the end of
  \<open>checked\<close> unchecked. The current library does so (\<open>TaskList_spec\<close>,
  \<open>TaskList_example\<close>). The earlier library reads \<^verbatim>\<open>checked[i]\<close> with no check
  of the index: for the items \<open>A, B\<close> and \<open>checked = [true]\<close> it writes the line of
  \<open>A\<close> and panics at \<open>B\<close>.
\<close>

theorem TaskList2_short_checked_panics:
  "TaskList2 [''A'', ''B''] [True] New2 =
     (Some IndexOutOfRange, \<lparr>content2 = ''- [x] A'' @ [NL], headings = []\<rparr>)"
  by (simp add: TaskList2_def WriteString2_def New2_def)

lemma TaskList2_keeps_empty_item:
  "TaskList2 [''A'', []] [True, False] New2 =
     (None, \<lparr>content2 = ''- [x] A'' @ [NL] @ ''- [ ] '' @ [NL] @ [NL], headings = []\<rparr>)"
  by (simp add: TaskList2_def WriteString2_def New2_def)

section \<open>Front matter\<close>

text \<open>
  The current library does what claim C7 says: between the fences \<^verbatim>\<open>FrontMatter\<close>
  writes the lines of \<open>title\<close>, \<open>author\<close> and \<open>date\<close>, in this order, each when the
  key is in the map, and nothing for any other key.
\<close>

lemma FrontMatter_spec:
  "FrontMatter metadata md =
     md\<lparr>content := content md @ ''---'' @ [NL]
        @ front_line metadata ''title'' @ front_line metadata ''author''
        @ front_line metadata ''date'' @ ''---'' @ [NL, NL]\<rparr>"
  by (simp add: FrontMatter_def Let_def WriteString_def front_line_def split: option.split)

lemma FrontMatter_example:
  "content (FrontMatter [(''title'', ''T''), (''extra'', ''ignored'')] (New StandardMarkdown False)) =
     ''---'' @ [NL] @ ''title: '' @ [DQ] @ ''T'' @ [DQ] @ [NL] @ ''---'' @ [NL, NL]"
  by (simp add: FrontMatter_spec) (simp add: front_line_def New_def)

text \<open>
  Claim C7. \<^verbatim>\<open>FrontMatter\<close> is to write, between the fences, lines for the keys
  \<open>title\<close>, \<open>author\<close> and \<open>date\<close> only, and to drop every other key of the map. The
  current library does so (\<open>FrontMatter_spec\<close>, \<open>FrontMatter_example\<close>). The earlier
  library writes a line for every entry of the map, in the order in which the loop over
  the map visits them: for the map of \<open>title\<close> and \<open>extra\<close> the line of \<open>extra\<close>
  with the value \<open>ignored\<close> is in the output, whichever entry comes first.
\<close>

theorem FrontMatter2_keeps_other_keys:
  "content2 (FrontMatter2 [(''title'', ''T''), (''extra'', ''ignored'')] New2) =
     ''---'' @ [NL] @ ''title: '' @ [DQ] @ ''T'' @ [DQ] @ [NL]
       @ ''extra: '' @ [DQ] @ ''ignored'' @ [DQ] @ [NL] @ ''---'' @ [NL, NL] \<and>
   content2 (FrontMatter2 [(''extra'', ''ignored''), (''title'', ''T'')] New2) =
     ''---'' @ [NL] @ ''extra: '' @ [DQ] @ ''ignored'' @ [DQ] @ [NL]
       @ ''title: '' @ [DQ] @ ''T'' @ [DQ] @ [NL] @ ''---'' @ [NL, NL]"
  by (simp add: FrontMatter2_def Let_def WriteString2_def New2_def)

section \<open>Headings with no text\<close>

text \<open>
  In the current library a heading with no text changes nothing in the document; this
  library keeps no log of headings and has no table of contents.
\<close>

lemma Heading_empty_text:
  "Heading level [] ident attributes md = md"
  by (simp add: Heading_def)

text \<open>
  Claim C8. A heading with no text is to be skipped: nothing appended to the buffer, no
  record appended to the heading log, no entry in a later table of contents. The earlier
  library, the one that keeps the log, does not look at the text: on a new document the
  heading of level 1 with no text and no id writes \<open>#\<close>, a space and two newlines,
  logs the record of the text \<open>#\<close> and a space, and \<^verbatim>\<open>TableOfContents\<close> lists it.
\<close>

theorem Heading2_empty_text_is_written:
  "content2 (Heading2 1 [] [] New2) = ''# '' @ [NL, NL] \<and>
   headings (Heading2 1 [] [] New2) = [\<lparr>Text = ''# '', ID = []\<rparr>] \<and>
   content2 (TableOfContents (Heading2 1 [] [] New2)) =
     ''# '' @ [NL, NL] @ ''## Table of Contents'' @ [NL] @ ''- # '' @ [NL] @ [NL]"
  by (simp add: TableOfContents_def Heading2_def Let_def WriteString2_def New2_def Repeat_def)

section \<open>Escaping\<close>

lemma ReplaceAll_append:
  "ReplaceAll (a @ b) old new = ReplaceAll a old new @ ReplaceAll b old new"
  by (induction a) simp_all

lemma ReplaceAll_concat_map:
  "ReplaceAll (concat (map f s)) old new = concat (map (\<lambda>x. ReplaceAll (f x) old new) s)"
  by (induction s) (simp_all add: ReplaceAll_append)

lemma fold_ReplaceAll_pointwise:
  "fold (\<lambda>c t. ReplaceAll t (old c) (new c)) cs (concat (map f s)) =
   concat (map (\<lambda>x. fold (\<lambda>c t. ReplaceAll t (old c) (new c)) cs (f x)) s)"
  by (induction cs arbitrary: f) (simp_all add: ReplaceAll_concat_map)

lemma concat_singletons: "concat (map (\<lambda>x. [x]) s) = s"
  by (induction s) simp_all

lemma Escape_pointwise:
  "fst (Escape s md) =
     concat (map (\<lambda>x. fold (\<lambda>char t. ReplaceAll t char ([BS] @ [char])) specialChars [x]) s)"
  using fold_ReplaceAll_pointwise [of "\<lambda>c. c" "\<lambda>c. [BS] @ [c]" specialChars "\<lambda>x. [x]" s]
  by (simp add: Escape_def concat_singletons)

lemma Escape2_pointwise:
  "fst (Escape2 s md) =
     concat (map (\<lambda>x. fold (\<lambda>char t. ReplaceAll t (hd char) ([BS] @ char)) specialChars2 [x]) s)"
  using fold_ReplaceAll_pointwise [of hd "\<lambda>c. [BS] @ c" specialChars2 "\<lambda>x. [x]" s]
  by (simp add: Escape2_def concat_singletons)

lemma Escape2_char:
  "fold (\<lambda>char t. ReplaceAll t (hd char) ([BS] @ char)) specialChars2 [x] =
     (if special x then [BS, x] else [x])"
  by (simp add: specialChars2_def special_def)

lemma Escape_char:
  "fold (\<lambda>char t. ReplaceAll t char ([BS] @ [char])) specialChars [x] =
     (if x = BS then [BS, BS, BS, BS] else if special x then [BS, x] else [x])"
  by (simp add: specialChars_def special_def)

text \<open>
  The earlier library escapes as the specification says: its list of characters holds
  the backslash once and first, so \<^verbatim>\<open>Escape\<close> is the one pass that puts one
  backslash before every character of the set.
\<close>

lemma Escape2_spec: "fst (Escape2 s md) = escape_pass s"
  by (simp only: Escape2_pointwise Escape2_char escape_pass_def)

text \<open>
  The current library goes through the backslash twice, since the raw string literal
  at the head of \<^verbatim>\<open>specialChars\<close> is two backslashes: a backslash of the text
  becomes four, every other character of the set gets one backslash.
\<close>

lemma Escape_what_it_does:
  "fst (Escape s md) =
     concat (map (\<lambda>x. if x = BS then [BS, BS, BS, BS] else if special x then [BS, x] else [x]) s)"
  by (simp only: Escape_pointwise Escape_char)

text \<open>
  Claim C6. \<^verbatim>\<open>Escape\<close> is to put exactly one backslash before every character of
  the fixed set, the backslash among them, so that the text of one backslash becomes two
  characters, and \<open>a*b\<close> becomes \<open>a\<close>, a backslash, \<open>*b\<close>. In the current library the text of one
  backslash becomes four backslashes; the earlier library returns two. Both escape
  \<open>a*b\<close> as claimed.
\<close>

theorem Escape_backslash_four:
  "fst (Escape [BS] md) = [BS, BS, BS, BS] \<and>
   fst (Escape2 [BS] md2) = [BS, BS] \<and>
   fst (Escape ''a*b'' md) = ''a'' @ [BS] @ ''*b''"
  by (simp add: Escape_what_it_does Escape2_spec escape_pass_def special_def)

section \<open>The two orders of formatting\<close>

lemma ApplyFormatting_from_take:
  "i \<le> length formats \<Longrightarrow>
     ApplyFormatting_from i formats t = fold format_case (rev (take i formats)) t"
proof (induction i arbitrary: t)
  case 0
  show ?case by simp
next
  case (Suc i)
  then have "take (Suc i) formats = take i formats @ [formats ! i]"
    by (simp add: take_Suc_conv_app_nth)
  with Suc show ?case by simp
qed

lemma ApplyFormatting_last_first:
  "fst (ApplyFormatting t formats md) = fold format_case (rev formats) t"
  by (simp add: ApplyFormatting_def ApplyFormatting_from_take)

text \<open>
  Claim C9. The two functions that apply the formats are not the same function: for the
  text \<open>text\<close> and the formats \<open>bold, italic\<close>, \<^verbatim>\<open>ApplyFormatting\<close> of the current
  library (which goes through the list from its end, so that the first format ends up
  outermost) gives \<open>**_text_**\<close>, and \<^verbatim>\<open>applyFormatting\<close> of the earlier library
  (which goes through the list from its start, so that the last format ends up
  outermost) gives \<open>_**text**_\<close>.
\<close>

theorem formatting_orders_differ:
  "fst (ApplyFormatting ''text'' [''bold'', ''italic''] md) = ''**_text_**'' \<and>
   fst (applyFormatting ''text'' [''bold'', ''italic''] md2) = ''_**text**_'' \<and>
   fst (ApplyFormatting ''text'' [''bold'', ''italic''] md) \<noteq>
     fst (applyFormatting ''text'' [''bold'', ''italic''] md2)"
  by (simp add: ApplyFormatting_last_first format_case_def Bold_def Italic_def)

theorem formatting_orders_differ_witness:
  "fst (ApplyFormatting ''text'' [''bold'', ''italic''] (New StandardMarkdown False)) \<noteq>
     fst (applyFormatting ''text'' [''bold'', ''italic''] New2)"
  by (rule formatting_orders_differ [THEN conjunct2, THEN conjunct2])

section \<open>The methods that only read\<close>

text \<open>
  Claim C10. \<^verbatim>\<open>Escape\<close>, \<^verbatim>\<open>ColorText\<close>, \<^verbatim>\<open>ToHTML\<close> and
  \<^verbatim>\<open>GetContent\<close> leave the document as it is, the buffer and every other field (in
  the earlier library the heading log too), so that \<^verbatim>\<open>GetContent\<close> returns the same
  text after the call as before. What they return is a function of their arguments and
  of the document: \<^verbatim>\<open>Escape\<close> of the text alone, \<^verbatim>\<open>ColorText\<close> of its arguments
  and the colour flag, \<^verbatim>\<open>ToHTML\<close> and \<^verbatim>\<open>GetContent\<close> of the buffer.
\<close>

theorem queries_leave_document:
  "snd (Escape text md) = md \<and> snd (ColorText text color md) = md \<and>
   snd (ToHTML md) = md \<and> snd (GetContent md) = md \<and>
   snd (Escape2 text md2) = md2 \<and> snd (ToHTML2 md2) = md2 \<and> snd (GetContent2 md2) = md2 \<and>
   fst (GetContent (snd (Escape text md))) = fst (GetContent md) \<and>
   fst (GetContent (snd (ColorText text color md))) = fst (GetContent md) \<and>
   fst (GetContent (snd (ToHTML md))) = fst (GetContent md) \<and>
   fst (GetContent (snd (GetContent md))) = fst (GetContent md) \<and>
   fst (Escape text md) = fst (Escape text md') \<and>
   fst (ColorText text color md) =
     fst (ColorText text color (New fl (useColor md))) \<and>
   fst (ToHTML md) = ''<html>'' @ ReplaceAll (content md) NL ''<br>'' @ ''</html>'' \<and>
   fst (GetContent md) = content md"
  by (simp add: Escape_def ColorText_def ToHTML_def GetContent_def Escape2_def ToHTML2_def
        GetContent2_def New_def)

theorem queries_leave_document_witness:
  "snd (ToHTML (Paragraph ''p'' [] (New StandardMarkdown True))) =
     Paragraph ''p'' [] (New StandardMarkdown True) \<and>
   fst (ToHTML (Paragraph ''p'' [] (New StandardMarkdown True))) = ''<html>p<br><br></html>'' \<and>
   fst (ColorText ''Hello'' ''red'' (New StandardMarkdown True)) =
     ''<span style='' @ [DQ] @ ''color:red'' @ [DQ] @ ''>Hello</span>''"
proof -
  let ?md = "Paragraph ''p'' [] (New StandardMarkdown True)"
  note h = queries_leave_document [of "''Hello''" ?md "''red''" New2 ?md StandardMarkdown]
  have a: "snd (ToHTML ?md) = ?md" using h by blast
  have "fst (ToHTML ?md) = ''<html>'' @ ReplaceAll (content ?md) NL ''<br>'' @ ''</html>''"
    using h by blast
  then have b: "fst (ToHTML ?md) = ''<html>p<br><br></html>''"
    by (simp add: Paragraph_def ApplyFormatting_def WriteString_def New_def)
  have c: "fst (ColorText ''Hello'' ''red'' (New StandardMarkdown True)) =
     ''<span style='' @ [DQ] @ ''color:red'' @ [DQ] @ ''>Hello</span>''"
    by (simp add: ColorText_def New_def)
  show ?thesis using a b c by blast
qed

end
